theory Spec2Isabelle
  imports Complex_Main "HOL-Library.Char_ord" "HOL-Library.List_Lexorder" "HOL-Library.Multiset"
begin

section \<open>JavaScript values\<close>

text \<open>
  The service (\<^verbatim>\<open>src/app.js\<close>) handles JSON data throughout: request bodies, the
  provider's replies, the rows of the table \<^verbatim>\<open>job_roles\<close> and the responses. A value
  of the program is a \<open>jsval\<close>. Numbers are reals plus \<open>JNaN\<close>; a string is the list of
  its code units (names are taken to be ASCII, one \<open>char\<close> per code unit); an object is
  the association list of its own properties, read with \<open>map_of\<close>.
\<close>

datatype jsval =
    JUndefined
  | JNull
  | JBool bool
  | JNum real
  | JNaN
  | JStr string
  | JArr "jsval list"
  | JObj "(string \<times> jsval) list"

text \<open>What a \<^verbatim>\<open>throw\<close> carries. Every fallible operation returns \<open>error + 'a\<close>.\<close>

datatype error =
    TypeError
  | ReferenceError string
  | SyntaxError
  | URIError
  | ProviderRejected
  | StoreError
  | GenericError string

text \<open>\<^verbatim>\<open>!value\<close> is \<open>\<not> truthy value\<close>: the falsy values are \<^verbatim>\<open>undefined\<close>, \<^verbatim>\<open>null\<close>,
  \<^verbatim>\<open>false\<close>, \<^verbatim>\<open>0\<close>, \<^verbatim>\<open>NaN\<close> and the empty string.\<close>

fun truthy :: "jsval \<Rightarrow> bool" where
  "truthy JUndefined = False"
| "truthy JNull = False"
| "truthy (JBool b) = b"
| "truthy (JNum x) = (x \<noteq> 0)"
| "truthy JNaN = False"
| "truthy (JStr s) = (s \<noteq> [])"
| "truthy (JArr xs) = True"
| "truthy (JObj kvs) = True"

text \<open>\<^verbatim>\<open>a || b\<close>.\<close>

definition jsOr :: "jsval \<Rightarrow> jsval \<Rightarrow> jsval" where
  "jsOr a b = (if truthy a then a else b)"

text \<open>\<^verbatim>\<open>typeof v === "string"\<close> and \<^verbatim>\<open>Array.isArray(v)\<close>.\<close>

fun isString :: "jsval \<Rightarrow> bool" where
  "isString (JStr s) = True"
| "isString v = False"

fun isArray :: "jsval \<Rightarrow> bool" where
  "isArray (JArr xs) = True"
| "isArray v = False"

fun elems :: "jsval \<Rightarrow> jsval list" where
  "elems (JArr xs) = xs"
| "elems v = []"

text \<open>
  \<^verbatim>\<open>v.k\<close> for the property names the program reads (\<^verbatim>\<open>skills\<close>, \<^verbatim>\<open>role\<close>, \<^verbatim>\<open>score\<close>,
  \<^verbatim>\<open>title\<close>, \<^verbatim>\<open>roles\<close>, \<^verbatim>\<open>jobs\<close>, \<^verbatim>\<open>jobRole\<close>, ...): reading a property of
  \<^verbatim>\<open>undefined\<close> or \<^verbatim>\<open>null\<close> throws a TypeError, an object gives its own property or
  \<^verbatim>\<open>undefined\<close>, and a primitive or an array has none of these names.
\<close>

fun getProp :: "jsval \<Rightarrow> string \<Rightarrow> error + jsval" where
  "getProp JUndefined k = Inl TypeError"
| "getProp JNull k = Inl TypeError"
| "getProp (JObj kvs) k = Inr (case map_of kvs k of None \<Rightarrow> JUndefined | Some v \<Rightarrow> v)"
| "getProp v k = Inr JUndefined"

section \<open>Helpers\<close>

text \<open>
  \<^verbatim>\<open>
  function safeParse(value) {
    if (!value) return [];
    if (typeof value === "string") {
      try { return JSON.parse(value); } catch { return []; }
    }
    return value;
  }
  \<close>
  \<^verbatim>\<open>JSON.parse\<close> is the language's own: it is the parameter \<open>parse\<close>, with \<open>None\<close>
  for the SyntaxError it throws on a text that is not JSON.
\<close>

definition safeParse :: "(string \<Rightarrow> jsval option) \<Rightarrow> jsval \<Rightarrow> jsval" where
  "safeParse parse v =
     (if truthy v then
        (case v of
           JStr s \<Rightarrow> (case parse s of Some parsed \<Rightarrow> parsed | None \<Rightarrow> JArr [])
         | _ \<Rightarrow> v)
      else JArr [])"

section \<open>Strings\<close>

text \<open>
  \<^verbatim>\<open>String.prototype.toLowerCase\<close> and SQL's \<^verbatim>\<open>LOWER\<close> on ASCII text: the letters
  \<^verbatim>\<open>A\<close>..\<^verbatim>\<open>Z\<close> go to \<^verbatim>\<open>a\<close>..\<^verbatim>\<open>z\<close>, every other character stays.
\<close>

definition lowerChar :: "char \<Rightarrow> char" where
  "lowerChar c =
     (case map_of (zip ''ABCDEFGHIJKLMNOPQRSTUVWXYZ'' ''abcdefghijklmnopqrstuvwxyz'') c of
        Some l \<Rightarrow> l
      | None \<Rightarrow> c)"

definition toLowerCase :: "string \<Rightarrow> string" where
  "toLowerCase s = map lowerChar s"

definition sqlLOWER :: "string \<Rightarrow> string" where
  "sqlLOWER s = map lowerChar s"

text \<open>SQL's \<^verbatim>\<open>TRIM\<close>: the spaces at both ends are removed.\<close>

definition sqlTRIM :: "string \<Rightarrow> string" where
  "sqlTRIM s = rev (dropWhile (\<lambda>c. c = CHR '' '') (rev (dropWhile (\<lambda>c. c = CHR '' '') s)))"

text \<open>
  \<^verbatim>\<open>v.substring(0, n) + "..."\<close>: only a string has the method; on any other value the
  call throws a TypeError.
\<close>

fun substringDots :: "jsval \<Rightarrow> nat \<Rightarrow> error + jsval" where
  "substringDots (JStr s) n = Inr (JStr (take n s @ ''...''))"
| "substringDots v n = Inl TypeError"

text \<open>
  \<^verbatim>\<open>v.map((p) => typeof p === "string" ? p : p.title)\<close>: only an array has \<^verbatim>\<open>map\<close>,
  and \<^verbatim>\<open>p.title\<close> throws on \<^verbatim>\<open>null\<close> and \<^verbatim>\<open>undefined\<close>.
\<close>

definition ideaTitle :: "jsval \<Rightarrow> error + jsval" where
  "ideaTitle p = (if isString p then Inr p else getProp p ''title'')"

fun mapE :: "('a \<Rightarrow> error + 'b) \<Rightarrow> 'a list \<Rightarrow> error + 'b list" where
  "mapE f [] = Inr []"
| "mapE f (x # xs) =
     (case f x of
        Inl err \<Rightarrow> Inl err
      | Inr y \<Rightarrow> (case mapE f xs of Inl err \<Rightarrow> Inl err | Inr ys \<Rightarrow> Inr (y # ys)))"

fun ideaTitles :: "jsval \<Rightarrow> error + jsval" where
  "ideaTitles (JArr ps) = (case mapE ideaTitle ps of Inl err \<Rightarrow> Inl err | Inr ts \<Rightarrow> Inr (JArr ts))"
| "ideaTitles v = Inl TypeError"

text \<open>
  A percent-decoder for ASCII escapes, standing for \<^verbatim>\<open>decodeURIComponent\<close> when a
  handler is evaluated on a concrete path: \<open>None\<close> is the URIError of a malformed escape
  (escapes of bytes from 128 on are not decoded here).
\<close>

definition hexDigit :: "char \<Rightarrow> nat option" where
  "hexDigit c =
     map_of (zip ''0123456789abcdefABCDEF''
       [0, 1, 2, 3, 4, 5, 6, 7, 8, 9, 10, 11, 12, 13, 14, 15, 10, 11, 12, 13, 14, 15]) c"

fun asciiDecode :: "string \<Rightarrow> string option" where
  "asciiDecode [] = Some []"
| "asciiDecode [c] = (if c = CHR ''%'' then None else Some [c])"
| "asciiDecode [c, d] =
     (if c = CHR ''%'' \<or> d = CHR ''%'' then None else Some [c, d])"
| "asciiDecode (c # h # l # rest) =
     (if c = CHR ''%'' then
        (case (hexDigit h, hexDigit l) of
           (Some a, Some b) \<Rightarrow>
             (if 16 * a + b < 128
              then map_option ((#) (char_of (16 * a + b))) (asciiDecode rest)
              else None)
         | _ \<Rightarrow> None)
      else map_option ((#) c) (asciiDecode (h # l # rest)))"

section \<open>The store\<close>

text \<open>
  Modelled from the spec: the table \<^verbatim>\<open>job_roles\<close>, whose declaration is not in the
  repository. Its columns are \<^verbatim>\<open>role_name\<close> (unique text), \<^verbatim>\<open>description\<close> (text),
  \<^verbatim>\<open>tech_stack\<close>, \<^verbatim>\<open>resume_keywords\<close>, \<^verbatim>\<open>project_ideas\<close> (serialized-list text) and
  \<^verbatim>\<open>roadmap_link\<close> (text, nullable). The handlers guard the serialized columns against
  \<^verbatim>\<open>NULL\<close> with \<open>safeParse\<close>, so these are nullable here too (\<open>None\<close> is \<^verbatim>\<open>NULL\<close>).
  The table is the list of its rows. In a \<^verbatim>\<open>WHERE\<close> clause \<^verbatim>\<open>=\<close> is the equality of
  the two texts, after the functions the statement applies to them.
\<close>

record row =
  role_name :: string
  description :: string
  tech_stack :: "string option"
  resume_keywords :: "string option"
  project_ideas :: "string option"
  roadmap_link :: "string option"

text \<open>The value the driver hands to the program for a nullable text column.\<close>

fun colVal :: "string option \<Rightarrow> jsval" where
  "colVal None = JNull"
| "colVal (Some s) = JStr s"

text \<open>
  A query parameter as the driver sends it: a string as text, \<^verbatim>\<open>null\<close> and
  \<^verbatim>\<open>undefined\<close> as \<^verbatim>\<open>NULL\<close>. Parameters of other shapes are not modelled: the query
  fails.
\<close>

fun sqlParam :: "jsval \<Rightarrow> error + string option" where
  "sqlParam (JStr s) = Inr (Some s)"
| "sqlParam JNull = Inr None"
| "sqlParam JUndefined = Inr None"
| "sqlParam v = Inl StoreError"

text \<open>
  \<^verbatim>\<open>SELECT * FROM job_roles WHERE TRIM(LOWER(role_name)) = TRIM(LOWER(?))\<close>; a \<^verbatim>\<open>NULL\<close>
  parameter selects nothing.
\<close>

definition selectTrimLower :: "string option \<Rightarrow> row list \<Rightarrow> row list" where
  "selectTrimLower p rows =
     (case p of
        None \<Rightarrow> []
      | Some name \<Rightarrow>
          filter (\<lambda>r. sqlTRIM (sqlLOWER (role_name r)) = sqlTRIM (sqlLOWER name)) rows)"

text \<open>\<^verbatim>\<open>SELECT * FROM job_roles WHERE LOWER(role_name) = ?\<close>.\<close>

definition selectLower :: "string \<Rightarrow> row list \<Rightarrow> row list" where
  "selectLower name rows = filter (\<lambda>r. sqlLOWER (role_name r) = name) rows"

text \<open>
  \<^verbatim>\<open>SELECT * FROM job_roles ORDER BY role_name ASC\<close>. The order of names is the
  column's collation, given by the key \<open>coll\<close> it compares (the identity for a binary
  collation, lower-casing for a case-insensitive one); rows of equal key keep the order
  of the table.
\<close>

definition selectOrdered :: "(string \<Rightarrow> string) \<Rightarrow> row list \<Rightarrow> row list" where
  "selectOrdered coll rows = sort_key (\<lambda>r. coll (role_name r)) rows"

section \<open>The environment of a request\<close>

text \<open>
  What a reply of \<^verbatim>\<open>openai.chat.completions.create\<close> is to the program: the call
  rejects, or it resolves to a completion of which the program reads
  \<^verbatim>\<open>choices[i].message.content\<close>, a text or \<^verbatim>\<open>null\<close> (\<open>None\<close>). A completion
  without \<^verbatim>\<open>choices\<close> is the one with no choice.
\<close>

datatype completion = Rejected | Completion "string option list"

text \<open>
  The language's builtins and the external collaborators of one request: \<^verbatim>\<open>JSON.parse\<close>
  (\<open>None\<close>: SyntaxError), \<^verbatim>\<open>JSON.stringify\<close> (a string, or \<^verbatim>\<open>undefined\<close>),
  \<^verbatim>\<open>decodeURIComponent\<close> (\<open>None\<close>: URIError), the provider's reply to the prompt built
  from the skills and to the prompt built from a role name, and the collation of the
  column \<^verbatim>\<open>role_name\<close>. The theorems hold for every environment.
\<close>

record env =
  JSON_parse :: "string \<Rightarrow> jsval option"
  JSON_stringify :: "jsval \<Rightarrow> jsval"
  decodeURIComponent :: "string \<Rightarrow> string option"
  chatRoles :: "jsval list \<Rightarrow> completion"
  chatDetails :: "jsval \<Rightarrow> completion"
  collation :: "string \<Rightarrow> string"

text \<open>
  The effects of a request on the outside: the calls to the provider and the statements
  sent to the database, in order.
\<close>

datatype event =
    AskRoles "jsval list"
  | AskDetails jsval
  | Select "string option"
  | Insert row

record world =
  job_roles :: "row list"
  effects :: "event list"

record response =
  status :: nat
  body :: jsval

text \<open>\<^verbatim>\<open>res.status(n).json({ error: msg })\<close>.\<close>

definition errorResponse :: "nat \<Rightarrow> string \<Rightarrow> response" where
  "errorResponse n msg = \<lparr>status = n, body = JObj [(''error'', JStr msg)]\<rparr>"

text \<open>
  An identifier that no enclosing scope declares: evaluating it throws a ReferenceError.
  The file is an ES module; it declares \<^verbatim>\<open>res\<close> only as a parameter of the route
  handlers, and \<^verbatim>\<open>role_name\<close> nowhere.
\<close>

definition unbound :: "string \<Rightarrow> error + jsval" where
  "unbound x = Inl (ReferenceError x)"

section \<open>AI functions\<close>

text \<open>\<^verbatim>\<open>JSON.parse(content)\<close> reads its argument as a string: \<^verbatim>\<open>null\<close> is read as the
  text \<^verbatim>\<open>null\<close>.\<close>

fun contentText :: "string option \<Rightarrow> string" where
  "contentText None = ''null''"
| "contentText (Some s) = s"

text \<open>
  The \<^verbatim>\<open>try\<close> block of \<^verbatim>\<open>getAIJobRoles\<close> (lines 95 to 114): the call, the test for
  choices, the parse of the first choice, and the three accepted shapes in the order
  of the source; any other shape is the empty list. The prompt is built before the
  block (\<^verbatim>\<open>skills.join(", ")\<close>, line 76); the skills are taken to be values that
  convert to a string, as the strings of the request do.
\<close>

definition getAIJobRoles_try :: "env \<Rightarrow> jsval list \<Rightarrow> error + jsval list" where
  "getAIJobRoles_try e skills =
     (case chatRoles e skills of
        Rejected \<Rightarrow> Inl ProviderRejected
      | Completion choices \<Rightarrow>
          (case choices of
             [] \<Rightarrow> Inl (GenericError ''No choices returned from Backend'')
           | content # others \<Rightarrow>
               (case JSON_parse e (contentText content) of
                  None \<Rightarrow> Inl SyntaxError
                | Some parsed \<Rightarrow>
                    (if isArray parsed then Inr (elems parsed)
                     else
                       (case getProp parsed ''roles'' of
                          Inl err \<Rightarrow> Inl err
                        | Inr roles \<Rightarrow>
                            (if truthy roles \<and> isArray roles then Inr (elems roles)
                             else
                               (case getProp parsed ''jobs'' of
                                  Inl err \<Rightarrow> Inl err
                                | Inr jobs \<Rightarrow>
                                    (if truthy jobs \<and> isArray jobs then Inr (elems jobs)
                                     else Inr []))))))))"

text \<open>
  The \<^verbatim>\<open>catch\<close> block (lines 115 to 127) logs and then evaluates
  \<^verbatim>\<open>res.status(500).json(...)\<close>. \<^verbatim>\<open>res\<close> is a parameter of the route handlers only:
  in this function it is unbound, so the block throws before its \<^verbatim>\<open>return []\<close>.
\<close>

definition getAIJobRoles_catch :: "error \<Rightarrow> error + jsval list" where
  "getAIJobRoles_catch err =
     (case unbound ''res'' of
        Inl err' \<Rightarrow> Inl err'
      | Inr res \<Rightarrow> Inr [])"

definition getAIJobRoles :: "env \<Rightarrow> jsval list \<Rightarrow> error + jsval list" where
  "getAIJobRoles e skills =
     (case getAIJobRoles_try e skills of
        Inr roles \<Rightarrow> Inr roles
      | Inl err \<Rightarrow> getAIJobRoles_catch err)"

text \<open>
  \<^verbatim>\<open>getAIDetailsForJob\<close> (lines 130 to 150): the parsed first choice, and \<^verbatim>\<open>null\<close> on a
  rejected call, on a completion without choices (reading \<^verbatim>\<open>choices[0].message\<close>
  throws) and on a text that is not JSON.
\<close>

definition getAIDetailsForJob :: "env \<Rightarrow> jsval \<Rightarrow> jsval" where
  "getAIDetailsForJob e roleName =
     (case chatDetails e roleName of
        Rejected \<Rightarrow> JNull
      | Completion choices \<Rightarrow>
          (case choices of
             [] \<Rightarrow> JNull
           | content # others \<Rightarrow>
               (case JSON_parse e (contentText content) of
                  None \<Rightarrow> JNull
                | Some parsed \<Rightarrow> parsed)))"

text \<open>Sequencing of fallible steps: the first error ends the sequence, as a
  \<^verbatim>\<open>throw\<close> does.\<close>

definition bindE :: "error + 'a \<Rightarrow> ('a \<Rightarrow> error + 'b) \<Rightarrow> error + 'b" where
  "bindE m f = (case m of Inl err \<Rightarrow> Inl err | Inr x \<Rightarrow> f x)"

section \<open>Routes\<close>

subsection \<open>POST /recommend\<close>

text \<open>
  The entry pushed for a stored row (lines 181 to 188). \<^verbatim>\<open>score\<close> is
  \<^verbatim>\<open>r.score || null\<close> (line 171).
\<close>

definition hitEntry :: "env \<Rightarrow> row \<Rightarrow> jsval \<Rightarrow> error + jsval" where
  "hitEntry e row score =
     (case ideaTitles (safeParse (JSON_parse e) (colVal (project_ideas row))) of
        Inl err \<Rightarrow> Inl err
      | Inr ideas \<Rightarrow>
          Inr (JObj [(''role'', JStr (role_name row)),
                     (''score'', score),
                     (''preview'', JStr (take 130 (description row) @ ''...'')),
                     (''projectIdeas'', ideas)]))"

text \<open>
  The row of the \<^verbatim>\<open>INSERT\<close> (lines 194 to 204), from its six parameters in the
  order of the source. A \<^verbatim>\<open>NULL\<close> name or description is refused by the table.
\<close>

definition insertedRow :: "env \<Rightarrow> jsval \<Rightarrow> error + row" where
  "insertedRow e jobDetails =
     bindE (getProp jobDetails ''jobRole'') (\<lambda>jobRole.
     bindE (getProp jobDetails ''jobrole'') (\<lambda>jobrole.
     bindE (getProp jobDetails ''description'') (\<lambda>descr.
     bindE (getProp jobDetails ''techStack'') (\<lambda>techStack.
     bindE (getProp jobDetails ''resumeKeywords'') (\<lambda>resumeKeywords.
     bindE (getProp jobDetails ''projectIdeas'') (\<lambda>projectIdeas.
     bindE (getProp jobDetails ''roadmapLink'') (\<lambda>roadmapLink.
     bindE (sqlParam (jsOr jobRole jobrole)) (\<lambda>p1.
     bindE (sqlParam descr) (\<lambda>p2.
     bindE (sqlParam (JSON_stringify e techStack)) (\<lambda>p3.
     bindE (sqlParam (JSON_stringify e resumeKeywords)) (\<lambda>p4.
     bindE (sqlParam (JSON_stringify e projectIdeas)) (\<lambda>p5.
     bindE (sqlParam roadmapLink) (\<lambda>p6.
       (case (p1, p2) of
          (Some name, Some d) \<Rightarrow>
            Inr \<lparr>role_name = name, description = d, tech_stack = p3,
                 resume_keywords = p4, project_ideas = p5, roadmap_link = p6\<rparr>
        | _ \<Rightarrow> Inl StoreError))))))))))))))"

text \<open>The entry pushed after the insert (lines 206 to 213).\<close>

definition missEntry :: "jsval \<Rightarrow> jsval \<Rightarrow> error + jsval" where
  "missEntry jobDetails score =
     bindE (getProp jobDetails ''role'') (\<lambda>role.
     bindE (getProp jobDetails ''description'') (\<lambda>descr.
     bindE (substringDots descr 130) (\<lambda>preview.
     bindE (getProp jobDetails ''projectIdeas'') (\<lambda>projectIdeas.
     bindE (ideaTitles projectIdeas) (\<lambda>ideas.
       Inr (JObj [(''role'', role), (''score'', score), (''preview'', preview),
                  (''projectIdeas'', ideas)]))))))"

text \<open>
  The second \<^verbatim>\<open>console.log\<close> of the miss path (line 192) reads three properties of
  \<^verbatim>\<open>jobDetails\<close> before the test \<^verbatim>\<open>if (jobDetails)\<close>.
\<close>

definition logJobDetails :: "jsval \<Rightarrow> error + unit" where
  "logJobDetails jobDetails =
     bindE (getProp jobDetails ''jobRole'') (\<lambda>a.
     bindE (getProp jobDetails ''jobrole'') (\<lambda>b.
     bindE (getProp jobDetails ''role'') (\<lambda>c. Inr ())))"

text \<open>The \<^verbatim>\<open>else\<close> branch of the loop body (lines 190 to 215).\<close>

definition missPath :: "env \<Rightarrow> jsval \<Rightarrow> jsval \<Rightarrow> jsval list \<Rightarrow> world \<Rightarrow> (error + jsval list) \<times> world" where
  "missPath e roleName score finalJobs w =
     (let jobDetails = getAIDetailsForJob e roleName;
          w1 = w\<lparr>effects := effects w @ [AskDetails roleName]\<rparr>
      in case logJobDetails jobDetails of
           Inl err \<Rightarrow> (Inl err, w1)
         | Inr u \<Rightarrow>
             (if truthy jobDetails then
                (case insertedRow e jobDetails of
                   Inl err \<Rightarrow> (Inl err, w1)
                 | Inr new \<Rightarrow>
                     (let w2 = w1\<lparr>job_roles := job_roles w1 @ [new],
                                   effects := effects w1 @ [Insert new]\<rparr>
                      in case missEntry jobDetails score of
                           Inl err \<Rightarrow> (Inl err, w2)
                         | Inr entry \<Rightarrow> (Inr (finalJobs @ [entry]), w2)))
              else (Inr finalJobs, w1)))"

text \<open>
  The rest of the loop body once the query has answered (lines 179 to 215): the entry
  of the first row found, or the miss path.
\<close>

definition pushEntry :: "env \<Rightarrow> jsval \<Rightarrow> jsval \<Rightarrow> row list \<Rightarrow> jsval list \<Rightarrow> world \<Rightarrow> (error + jsval list) \<times> world" where
  "pushEntry e roleName score rows finalJobs w =
     (case rows of
        row # others \<Rightarrow>
          (case hitEntry e row score of
             Inl err \<Rightarrow> (Inl err, w)
           | Inr entry \<Rightarrow> (Inr (finalJobs @ [entry]), w))
      | [] \<Rightarrow> missPath e roleName score finalJobs w)"

text \<open>
  One turn of \<^verbatim>\<open>for (const r of aiRoles)\<close> (lines 169 to 216). The parameter of the
  query is written \<^verbatim>\<open>[role_name]\<close> (line 175): the name bound two lines above is
  \<^verbatim>\<open>roleName\<close>, and \<^verbatim>\<open>role_name\<close> is declared nowhere, so building the parameter list
  throws and the query is not sent.
\<close>

definition recommendStep :: "env \<Rightarrow> jsval \<Rightarrow> jsval list \<Rightarrow> world \<Rightarrow> (error + jsval list) \<times> world" where
  "recommendStep e r finalJobs w =
     (case (if isString r then Inr r else getProp r ''role'') of
        Inl err \<Rightarrow> (Inl err, w)
      | Inr roleName \<Rightarrow>
          (case getProp r ''score'' of
             Inl err \<Rightarrow> (Inl err, w)
           | Inr sc \<Rightarrow>
               (let score = jsOr sc JNull
                in case unbound ''role_name'' of
                     Inl err \<Rightarrow> (Inl err, w)
                   | Inr param \<Rightarrow>
                       (case sqlParam param of
                          Inl err \<Rightarrow> (Inl err, w)
                        | Inr p \<Rightarrow>
                            pushEntry e roleName score (selectTrimLower p (job_roles w)) finalJobs
                              (w\<lparr>effects := effects w @ [Select p]\<rparr>)))))"

fun recommendLoop :: "env \<Rightarrow> jsval list \<Rightarrow> jsval list \<Rightarrow> world \<Rightarrow> (error + jsval list) \<times> world" where
  "recommendLoop e [] finalJobs w = (Inr finalJobs, w)"
| "recommendLoop e (r # rs) finalJobs w =
     (case recommendStep e r finalJobs w of
        (Inl err, w') \<Rightarrow> (Inl err, w')
      | (Inr finalJobs', w') \<Rightarrow> recommendLoop e rs finalJobs' w')"

text \<open>The test of line 158: \<^verbatim>\<open>!skills || !Array.isArray(skills) || skills.length === 0\<close>.\<close>

definition skillsRefused :: "jsval \<Rightarrow> bool" where
  "skillsRefused skills = (\<not> truthy skills \<or> \<not> isArray skills \<or> length (elems skills) = 0)"

text \<open>The \<^verbatim>\<open>try\<close> block of the handler (lines 156 to 218).\<close>

definition recommend_try :: "env \<Rightarrow> jsval \<Rightarrow> world \<Rightarrow> (error + response) \<times> world" where
  "recommend_try e reqBody w =
     (case getProp reqBody ''skills'' of
        Inl err \<Rightarrow> (Inl err, w)
      | Inr skills \<Rightarrow>
          (if skillsRefused skills
           then (Inr (errorResponse 400 ''Skills array required''), w)
           else
             (let w1 = w\<lparr>effects := effects w @ [AskRoles (elems skills)]\<rparr>
              in case getAIJobRoles e (elems skills) of
                   Inl err \<Rightarrow> (Inl err, w1)
                 | Inr aiRoles \<Rightarrow>
                     (case recommendLoop e aiRoles [] w1 of
                        (Inl err, w2) \<Rightarrow> (Inl err, w2)
                      | (Inr finalJobs, w2) \<Rightarrow>
                          (Inr \<lparr>status = 200, body = JArr finalJobs\<rparr>, w2)))))"

text \<open>The handler: what the \<^verbatim>\<open>try\<close> block answers, or the answer of its \<^verbatim>\<open>catch\<close>
  (lines 219 to 222).\<close>

definition recommend :: "env \<Rightarrow> jsval \<Rightarrow> world \<Rightarrow> response \<times> world" where
  "recommend e reqBody w =
     (case recommend_try e reqBody w of
        (Inr resp, w') \<Rightarrow> (resp, w')
      | (Inl err, w') \<Rightarrow> (errorResponse 500 ''Something went wrong'', w'))"

subsection \<open>GET /job/:role\<close>

text \<open>
  The \<^verbatim>\<open>try\<close> block (lines 226 to 245), on the route parameter \<^verbatim>\<open>req.params.role\<close>
  and the rows of the table. The name is decoded and lower-cased, and lower-cased once
  more where the parameter list is built; the statement compares it with
  \<^verbatim>\<open>LOWER(role_name)\<close> and, unlike the one of POST /recommend, trims neither side.
\<close>

definition getJob_try :: "env \<Rightarrow> string \<Rightarrow> row list \<Rightarrow> error + response" where
  "getJob_try e param rows =
     (case decodeURIComponent e param of
        None \<Rightarrow> Inl URIError
      | Some decoded \<Rightarrow>
          (let role = toLowerCase decoded
           in case selectLower (toLowerCase role) rows of
                [] \<Rightarrow> Inr (errorResponse 404 ''Job not found'')
              | job # others \<Rightarrow>
                  Inr \<lparr>status = 200,
                       body = JObj
                         [(''role'', JStr (role_name job)),
                          (''description'', JStr (description job)),
                          (''techStack'', safeParse (JSON_parse e) (colVal (tech_stack job))),
                          (''resumeKeywords'', safeParse (JSON_parse e) (colVal (resume_keywords job))),
                          (''projectIdeas'', safeParse (JSON_parse e) (colVal (project_ideas job))),
                          (''roadmapLink'', colVal (roadmap_link job))]\<rparr>))"

definition getJob :: "env \<Rightarrow> string \<Rightarrow> row list \<Rightarrow> response" where
  "getJob e param rows =
     (case getJob_try e param rows of
        Inr resp \<Rightarrow> resp
      | Inl err \<Rightarrow> errorResponse 500 ''Something went wrong'')"

subsection \<open>GET /jobs\<close>

text \<open>The entry of one row (lines 256 to 263).\<close>

definition jobsEntry :: "env \<Rightarrow> row \<Rightarrow> error + jsval" where
  "jobsEntry e row =
     (case ideaTitles (safeParse (JSON_parse e) (colVal (project_ideas row))) of
        Inl err \<Rightarrow> Inl err
      | Inr ideas \<Rightarrow>
          Inr (JObj [(''role'', JStr (role_name row)),
                     (''preview'', JStr (take 120 (description row) @ ''...'')),
                     (''projectIdeas'', ideas),
                     (''roadmapLink'', jsOr (colVal (roadmap_link row)) JNull)]))"

definition getJobs_try :: "env \<Rightarrow> row list \<Rightarrow> error + response" where
  "getJobs_try e rows =
     (case mapE (jobsEntry e) (selectOrdered (collation e) rows) of
        Inl err \<Rightarrow> Inl err
      | Inr jobs \<Rightarrow> Inr \<lparr>status = 200, body = JArr jobs\<rparr>)"

definition getJobs :: "env \<Rightarrow> row list \<Rightarrow> response" where
  "getJobs e rows =
     (case getJobs_try e rows of
        Inr resp \<Rightarrow> resp
      | Inl err \<Rightarrow> errorResponse 500 ''Something went wrong'')"

text \<open>
  The rows for which \<open>jobsEntry\<close> does not throw: the stored project ideas, read by
  \<open>safeParse\<close>, are a sequence of plain strings and of values other than \<^verbatim>\<open>null\<close> and
  \<^verbatim>\<open>undefined\<close> (the data model's \<open>{title, ...}\<close> objects among them).
\<close>

fun ideaOk :: "jsval \<Rightarrow> bool" where
  "ideaOk JNull = False"
| "ideaOk JUndefined = False"
| "ideaOk v = True"

definition ideasOk :: "env \<Rightarrow> row \<Rightarrow> bool" where
  "ideasOk e row =
     (case safeParse (JSON_parse e) (colVal (project_ideas row)) of
        JArr ps \<Rightarrow> list_all ideaOk ps
      | _ \<Rightarrow> False)"

section \<open>Reading a response\<close>

text \<open>The field \<open>k\<close> of an entry of a response, and whether a body has a text under
  \<^verbatim>\<open>error\<close>.\<close>

definition fieldOf :: "string \<Rightarrow> jsval \<Rightarrow> jsval" where
  "fieldOf k entry = (case getProp entry k of Inr v \<Rightarrow> v | Inl err \<Rightarrow> JUndefined)"

definition hasErrorField :: "jsval \<Rightarrow> bool" where
  "hasErrorField b = (case getProp b ''error'' of Inr (JStr msg) \<Rightarrow> True | _ \<Rightarrow> False)"

section \<open>Concrete requests\<close>

text \<open>
  Inputs on which the handlers are evaluated below. \<open>sampleParse\<close> lists a few texts
  with the value \<^verbatim>\<open>JSON.parse\<close> gives them (every other text counts as malformed),
  \<open>sampleStringify\<close> the text \<^verbatim>\<open>JSON.stringify\<close> gives the two lists used
  (\<^verbatim>\<open>undefined\<close> stays \<^verbatim>\<open>undefined\<close>).
\<close>

definition sampleParse :: "string \<Rightarrow> jsval option" where
  "sampleParse = map_of
     [(''[]'', JArr []),
      (''7'', JNum 7),
      (''null'', JNull),
      (''{}'', JObj []),
      (''[\"REST API\",{\"title\":\"Job board\"}]'',
         JArr [JStr ''REST API'', JObj [(''title'', JStr ''Job board'')]]),
      (''[\"SQL\",\"Node.js\"]'', JArr [JStr ''SQL'', JStr ''Node.js'']),
      (''{\"roles\":[{\"role\":\"Backend Developer\",\"score\":85}]}'',
         JObj [(''roles'', JArr [JObj [(''role'', JStr ''Backend Developer''), (''score'', JNum 85)]])]),
      (''{\"roles\":[{\"role\":\"Data Engineer\",\"score\":80}]}'',
         JObj [(''roles'', JArr [JObj [(''role'', JStr ''Data Engineer''), (''score'', JNum 80)]])]),
      (''{\"roles\":[{\"role\":\"Backend Developer\",\"score\":0}]}'',
         JObj [(''roles'', JArr [JObj [(''role'', JStr ''Backend Developer''), (''score'', JNum 0)]])]),
      (''{\"roles\":[{\"role\":\"Data Engineer\",\"score\":80},{\"role\":\"Backend Developer\",\"score\":85}]}'',
         JObj [(''roles'', JArr [JObj [(''role'', JStr ''Data Engineer''), (''score'', JNum 80)],
                                 JObj [(''role'', JStr ''Backend Developer''), (''score'', JNum 85)]])]),
      (''{\"roles\":[\"Backend Developer\",\"Data Engineer\",\"DBA\",\"QA Engineer\"]}'',
         JObj [(''roles'', JArr [JStr ''Backend Developer'', JStr ''Data Engineer'', JStr ''DBA'',
                                 JStr ''QA Engineer''])]),
      (''{\"answer\":\"none\"}'', JObj [(''answer'', JStr ''none'')]),
      (''{\"jobRole\":\"Data Engineer\",\"description\":\"Builds data pipelines.\",\"techStack\":[\"SQL\",\"Node.js\"],\"resumeKeywords\":[\"SQL\",\"Node.js\"],\"projectIdeas\":[],\"roadmapLink\":\"https://roadmap.sh\"}'',
         JObj [(''jobRole'', JStr ''Data Engineer''),
               (''description'', JStr ''Builds data pipelines.''),
               (''techStack'', JArr [JStr ''SQL'', JStr ''Node.js'']),
               (''resumeKeywords'', JArr [JStr ''SQL'', JStr ''Node.js'']),
               (''projectIdeas'', JArr []),
               (''roadmapLink'', JStr ''https://roadmap.sh'')])]"

definition sampleStringify :: "jsval \<Rightarrow> jsval" where
  "sampleStringify v =
     (if v = JArr [JStr ''SQL'', JStr ''Node.js''] then JStr ''[\"SQL\",\"Node.js\"]''
      else if v = JArr [] then JStr ''[]''
      else JUndefined)"

text \<open>
  An environment whose provider answers the skills with the text \<open>rolesText\<close> and the
  role names with the text \<open>detailsText\<close> (\<open>None\<close>: the call is rejected); the
  collation of the names is case-insensitive.
\<close>

definition sampleReply :: "string option \<Rightarrow> completion" where
  "sampleReply t = (case t of None \<Rightarrow> Rejected | Some s \<Rightarrow> Completion [Some s])"

definition sampleEnv :: "string option \<Rightarrow> string option \<Rightarrow> env" where
  "sampleEnv rolesText detailsText =
     \<lparr>JSON_parse = sampleParse,
      JSON_stringify = sampleStringify,
      decodeURIComponent = asciiDecode,
      chatRoles = (\<lambda>skills. sampleReply rolesText),
      chatDetails = (\<lambda>roleName. sampleReply detailsText),
      collation = sqlLOWER\<rparr>"

text \<open>
  The environments of the requests below: the provider rejects every call; it answers
  the skills with an object without roles; with four role names; with one role of score
  85, of score 0; with two roles, the details of which it refuses; with one role, the
  details of which it gives.
\<close>

definition silentEnv :: env where
  "silentEnv = sampleEnv None None"

definition shapelessEnv :: env where
  "shapelessEnv = sampleEnv (Some ''{\"answer\":\"none\"}'') None"

definition fourRolesEnv :: env where
  "fourRolesEnv =
     sampleEnv (Some ''{\"roles\":[\"Backend Developer\",\"Data Engineer\",\"DBA\",\"QA Engineer\"]}'') None"

definition hitEnv :: env where
  "hitEnv = sampleEnv (Some ''{\"roles\":[{\"role\":\"Backend Developer\",\"score\":85}]}'') None"

definition zeroScoreEnv :: env where
  "zeroScoreEnv = sampleEnv (Some ''{\"roles\":[{\"role\":\"Backend Developer\",\"score\":0}]}'') None"

definition undescribedEnv :: env where
  "undescribedEnv =
     sampleEnv (Some ''{\"roles\":[{\"role\":\"Data Engineer\",\"score\":80},{\"role\":\"Backend Developer\",\"score\":85}]}'') None"

definition missEnv :: env where
  "missEnv =
     sampleEnv (Some ''{\"roles\":[{\"role\":\"Data Engineer\",\"score\":80}]}'')
       (Some ''{\"jobRole\":\"Data Engineer\",\"description\":\"Builds data pipelines.\",\"techStack\":[\"SQL\",\"Node.js\"],\"resumeKeywords\":[\"SQL\",\"Node.js\"],\"projectIdeas\":[],\"roadmapLink\":\"https://roadmap.sh\"}'')"

text \<open>A stored role whose description has 140 characters, and a second, short one.\<close>

definition backendRow :: row where
  "backendRow =
     \<lparr>role_name = ''Backend Developer'',
      description = replicate 140 (CHR ''d''),
      tech_stack = Some ''[\"SQL\",\"Node.js\"]'',
      resume_keywords = None,
      project_ideas = Some ''[\"REST API\",{\"title\":\"Job board\"}]'',
      roadmap_link = Some ''https://roadmap.sh''\<rparr>"

definition analystRow :: row where
  "analystRow =
     \<lparr>role_name = ''analyst'',
      description = ''Reads data.'',
      tech_stack = None,
      resume_keywords = Some ''[]'',
      project_ideas = None,
      roadmap_link = None\<rparr>"

text \<open>A row whose project ideas were stored as an object, not as a list.\<close>

definition objectIdeasRow :: row where
  "objectIdeasRow =
     \<lparr>role_name = ''Tester'', description = ''Tests.'', tech_stack = None,
      resume_keywords = None, project_ideas = Some ''{}'', roadmap_link = None\<rparr>"

definition world0 :: "row list \<Rightarrow> world" where
  "world0 rows = \<lparr>job_roles = rows, effects = []\<rparr>"

text \<open>The body \<^verbatim>\<open>{"skills": ["sql", "node"]}\<close>.\<close>

definition skillsBody :: jsval where
  "skillsBody = JObj [(''skills'', JArr [JStr ''sql'', JStr ''node''])]"


section \<open>Properties of the helpers\<close>

lemma bindE_simps [simp]:
  "bindE (Inl err) f = Inl err"
  "bindE (Inr x) f = f x"
  by (simp_all add: bindE_def)

lemma sampleParse_texts:
  "sampleParse ''[]'' = Some (JArr [])"
  "sampleParse ''7'' = Some (JNum 7)"
  "sampleParse ''{bad'' = None"
  "sampleParse ''{\"answer\":\"none\"}'' = Some (JObj [(''answer'', JStr ''none'')])"
  "sampleParse ''[\"REST API\",{\"title\":\"Job board\"}]'' =
     Some (JArr [JStr ''REST API'', JObj [(''title'', JStr ''Job board'')]])"
  by (simp_all add: sampleParse_def)

lemma sampleParse_replies:
  "sampleParse ''{\"roles\":[\"Backend Developer\",\"Data Engineer\",\"DBA\",\"QA Engineer\"]}'' =
     Some (JObj [(''roles'', JArr [JStr ''Backend Developer'', JStr ''Data Engineer'', JStr ''DBA'',
                                   JStr ''QA Engineer''])])"
  "sampleParse ''{\"roles\":[{\"role\":\"Backend Developer\",\"score\":85}]}'' =
     Some (JObj [(''roles'', JArr [JObj [(''role'', JStr ''Backend Developer''), (''score'', JNum 85)]])])"
  "sampleParse ''{\"roles\":[{\"role\":\"Data Engineer\",\"score\":80}]}'' =
     Some (JObj [(''roles'', JArr [JObj [(''role'', JStr ''Data Engineer''), (''score'', JNum 80)]])])"
  "sampleParse ''{\"roles\":[{\"role\":\"Backend Developer\",\"score\":0}]}'' =
     Some (JObj [(''roles'', JArr [JObj [(''role'', JStr ''Backend Developer''), (''score'', JNum 0)]])])"
  "sampleParse ''{\"roles\":[{\"role\":\"Data Engineer\",\"score\":80},{\"role\":\"Backend Developer\",\"score\":85}]}'' =
     Some (JObj [(''roles'', JArr [JObj [(''role'', JStr ''Data Engineer''), (''score'', JNum 80)],
                                   JObj [(''role'', JStr ''Backend Developer''), (''score'', JNum 85)]])])"
  "sampleParse ''{\"jobRole\":\"Data Engineer\",\"description\":\"Builds data pipelines.\",\"techStack\":[\"SQL\",\"Node.js\"],\"resumeKeywords\":[\"SQL\",\"Node.js\"],\"projectIdeas\":[],\"roadmapLink\":\"https://roadmap.sh\"}'' =
     Some (JObj [(''jobRole'', JStr ''Data Engineer''),
               (''description'', JStr ''Builds data pipelines.''),
               (''techStack'', JArr [JStr ''SQL'', JStr ''Node.js'']),
               (''resumeKeywords'', JArr [JStr ''SQL'', JStr ''Node.js'']),
               (''projectIdeas'', JArr []),
               (''roadmapLink'', JStr ''https://roadmap.sh'')])"
  by (simp_all add: sampleParse_def)

lemma sampleEnv_fields:
  "JSON_parse (sampleEnv a b) = sampleParse"
  "JSON_stringify (sampleEnv a b) = sampleStringify"
  "decodeURIComponent (sampleEnv a b) = asciiDecode"
  "chatRoles (sampleEnv a b) skills = sampleReply a"
  "chatDetails (sampleEnv a b) roleName = sampleReply b"
  "collation (sampleEnv a b) = sqlLOWER"
  by (simp_all add: sampleEnv_def)

lemma select_samples:
  "selectTrimLower (Some ''Backend Developer'') [backendRow] = [backendRow]"
  "selectTrimLower (Some '' backend developer'') [backendRow] = [backendRow]"
  "selectTrimLower (Some ''Data Engineer'') [backendRow] = []"
  by (simp_all add: selectTrimLower_def sqlTRIM_def sqlLOWER_def lowerChar_def backendRow_def)

lemma skillsBody_skills:
  "getProp skillsBody ''skills'' = Inr (JArr [JStr ''sql'', JStr ''node''])"
  by (simp add: skillsBody_def)

text \<open>
  C10 (as the code has it). \<open>safeParse\<close> is a total function into values: nothing it does
  can throw. Every falsy value (\<^verbatim>\<open>null\<close>, \<^verbatim>\<open>undefined\<close>, the empty string, and also
  \<^verbatim>\<open>false\<close>, \<^verbatim>\<open>0\<close> and \<^verbatim>\<open>NaN\<close>) gives the empty sequence; a non-empty string that is
  not JSON gives the empty sequence; a non-empty string that is JSON gives the parsed
  value, whatever its shape; every truthy value that is not a string is returned
  unchanged.
\<close>

theorem safeParse_cases:
  "(\<not> truthy v \<longrightarrow> safeParse parse v = JArr []) \<and>
   (s \<noteq> [] \<and> parse s = None \<longrightarrow> safeParse parse (JStr s) = JArr []) \<and>
   (s \<noteq> [] \<and> parse s = Some x \<longrightarrow> safeParse parse (JStr s) = x) \<and>
   (truthy v \<and> \<not> isString v \<longrightarrow> safeParse parse v = v)"
  by (cases v) (simp_all add: safeParse_def)

text \<open>
  The four cases of C10 at \<^verbatim>\<open>null\<close>, at a text that is not JSON, at the text \<^verbatim>\<open>7\<close>
  and at an object.
\<close>

theorem safeParse_cases_witness:
  "safeParse sampleParse JNull = JArr [] \<and>
   safeParse sampleParse (JStr ''{bad'') = JArr [] \<and>
   safeParse sampleParse (JStr ''7'') = JNum 7 \<and>
   safeParse sampleParse (JObj [(''title'', JStr ''x'')]) = JObj [(''title'', JStr ''x'')]"
  using safeParse_cases [of JNull sampleParse "''{bad''" "JNull"]
        safeParse_cases [of "JObj [(''title'', JStr ''x'')]" sampleParse "''7''" "JNum 7"]
  by (simp add: sampleParse_texts)

text \<open>
  C10 as the claim words it fails: \<^verbatim>\<open>0\<close> is a non-string value that is neither
  \<^verbatim>\<open>null\<close> nor \<^verbatim>\<open>undefined\<close> nor empty, and it is not returned unchanged.
\<close>

theorem safeParse_zero_counterexample:
  "safeParse sampleParse (JNum 0) = JArr [] \<and> safeParse sampleParse (JNum 0) \<noteq> JNum 0"
  by (simp add: safeParse_def)

section \<open>Properties of the AI functions\<close>

lemma getAIJobRoles_catch_throws:
  "getAIJobRoles_catch err = Inl (ReferenceError ''res'')"
  by (simp add: getAIJobRoles_catch_def unbound_def)

lemma getAIJobRoles_rejected:
  "chatRoles e skills = Rejected \<Longrightarrow> getAIJobRoles e skills = Inl (ReferenceError ''res'')"
  by (simp add: getAIJobRoles_def getAIJobRoles_try_def getAIJobRoles_catch_throws)

text \<open>
  C6 as the claim words it fails: the provider's reply holds four role names, and
  \<open>getAIJobRoles\<close> returns all four.
\<close>

theorem getAIJobRoles_four_counterexample:
  "getAIJobRoles fourRolesEnv [JStr ''sql'', JStr ''node''] =
     Inr [JStr ''Backend Developer'', JStr ''Data Engineer'', JStr ''DBA'', JStr ''QA Engineer''] \<and>
   \<not> length [JStr ''Backend Developer'', JStr ''Data Engineer'', JStr ''DBA'', JStr ''QA Engineer''] \<le> 3"
  by (simp add: getAIJobRoles_def getAIJobRoles_try_def fourRolesEnv_def sampleEnv_fields
      sampleReply_def sampleParse_replies)

text \<open>
  C6 (as the code has it). When the provider replies with a text that parses,
  \<open>getAIJobRoles\<close> returns the list the reply holds, in order and whole, whatever its
  length: the reply itself when it is a list, else its \<^verbatim>\<open>roles\<close> field when that is a
  list, else its \<^verbatim>\<open>jobs\<close> field when that is a list. Nothing cuts the list to three.
\<close>

theorem getAIJobRoles_reply_list:
  assumes "chatRoles e skills = Completion (content # others)"
      and "JSON_parse e (contentText content) = Some parsed"
  shows "(parsed = JArr roles \<longrightarrow> getAIJobRoles e skills = Inr roles) \<and>
         (parsed = JObj kvs \<and> map_of kvs ''roles'' = Some (JArr roles) \<longrightarrow>
            getAIJobRoles e skills = Inr roles) \<and>
         (parsed = JObj kvs \<and> (case map_of kvs ''roles'' of None \<Rightarrow> True | Some v \<Rightarrow> \<not> isArray v) \<and>
          map_of kvs ''jobs'' = Some (JArr roles) \<longrightarrow>
            getAIJobRoles e skills = Inr roles)"
  using assms
  by (auto simp add: getAIJobRoles_def getAIJobRoles_try_def split: option.splits)

text \<open>C6 on a reply whose \<^verbatim>\<open>roles\<close> field holds four names, and on the reply \<^verbatim>\<open>[]\<close>.\<close>

theorem getAIJobRoles_reply_list_witness:
  "getAIJobRoles fourRolesEnv [JStr ''sql'', JStr ''node''] =
     Inr [JStr ''Backend Developer'', JStr ''Data Engineer'', JStr ''DBA'', JStr ''QA Engineer''] \<and>
   getAIJobRoles (sampleEnv (Some ''[]'') None) [JStr ''sql'', JStr ''node''] = Inr []"
proof -
  let ?four = "[JStr ''Backend Developer'', JStr ''Data Engineer'', JStr ''DBA'', JStr ''QA Engineer'']"
  let ?text = "''{\"roles\":[\"Backend Developer\",\"Data Engineer\",\"DBA\",\"QA Engineer\"]}''"
  have "chatRoles fourRolesEnv [JStr ''sql'', JStr ''node''] = Completion (Some ?text # [])"
    by (simp add: fourRolesEnv_def sampleEnv_fields sampleReply_def)
  moreover have "JSON_parse fourRolesEnv (contentText (Some ?text)) =
      Some (JObj [(''roles'', JArr ?four)])"
    by (simp add: fourRolesEnv_def sampleEnv_fields sampleParse_replies)
  ultimately have first:
    "getAIJobRoles fourRolesEnv [JStr ''sql'', JStr ''node''] = Inr ?four"
    using getAIJobRoles_reply_list [of fourRolesEnv "[JStr ''sql'', JStr ''node'']"
        "Some ?text" "[]" "JObj [(''roles'', JArr ?four)]" ?four "[(''roles'', JArr ?four)]"]
    by simp
  have "chatRoles (sampleEnv (Some ''[]'') None) [JStr ''sql'', JStr ''node''] =
      Completion (Some ''[]'' # [])"
    by (simp add: sampleEnv_fields sampleReply_def)
  moreover have "JSON_parse (sampleEnv (Some ''[]'') None) (contentText (Some ''[]'')) = Some (JArr [])"
    by (simp add: sampleEnv_fields sampleParse_texts)
  ultimately have second:
    "getAIJobRoles (sampleEnv (Some ''[]'') None) [JStr ''sql'', JStr ''node''] = Inr []"
    using getAIJobRoles_reply_list [of "sampleEnv (Some ''[]'') None" "[JStr ''sql'', JStr ''node'']"
        "Some ''[]''" "[]" "JArr []" "[]"]
    by simp
  from first second show ?thesis by simp
qed

section \<open>Properties of POST /recommend\<close>

text \<open>
  Every turn of the loop throws, and leaves the outside as it found it: the element is
  \<^verbatim>\<open>null\<close> or \<^verbatim>\<open>undefined\<close> (a TypeError), or the turn reaches \<^verbatim>\<open>[role_name]\<close>.
\<close>

lemma recommendStep_throws:
  "\<exists>err. recommendStep e r finalJobs w = (Inl err, w)"
  by (cases "if isString r then Inr r else getProp r ''role''"; cases "getProp r ''score''")
     (simp_all add: recommendStep_def unbound_def)

lemma recommendLoop_throws:
  assumes "aiRoles \<noteq> []"
  shows "\<exists>err. recommendLoop e aiRoles finalJobs w = (Inl err, w)"
proof -
  from assms obtain r rs where split: "aiRoles = r # rs"
    by (cases aiRoles) auto
  obtain err where "recommendStep e r finalJobs w = (Inl err, w)"
    using recommendStep_throws by blast
  with split show ?thesis by simp
qed

text \<open>
  Hence the answers to a body whose skills pass the test of line 158: the empty list
  when \<open>getAIJobRoles\<close> returns no role, the answer of the \<^verbatim>\<open>catch\<close> block otherwise.
  The only effect is the call to the provider.
\<close>

lemma recommend_accepted:
  assumes "getProp reqBody ''skills'' = Inr (JArr skills)" and "skills \<noteq> []"
  shows "recommend e reqBody w =
           (case getAIJobRoles e skills of
              Inr [] \<Rightarrow> \<lparr>status = 200, body = JArr []\<rparr>
            | _ \<Rightarrow> errorResponse 500 ''Something went wrong'',
            w\<lparr>effects := effects w @ [AskRoles skills]\<rparr>)"
proof (cases "getAIJobRoles e skills")
  case (Inl err)
  with assms show ?thesis
    by (simp add: recommend_def recommend_try_def skillsRefused_def)
next
  case (Inr aiRoles)
  show ?thesis
  proof (cases aiRoles)
    case Nil
    with Inr assms show ?thesis
      by (simp add: recommend_def recommend_try_def skillsRefused_def)
  next
    case (Cons r rs)
    then obtain err where
      "recommendLoop e aiRoles [] (w\<lparr>effects := effects w @ [AskRoles skills]\<rparr>) =
         (Inl err, w\<lparr>effects := effects w @ [AskRoles skills]\<rparr>)"
      using recommendLoop_throws [of aiRoles] by blast
    with Inr Cons assms show ?thesis
      by (simp add: recommend_def recommend_try_def skillsRefused_def)
  qed
qed

text \<open>
  C8. When the body has no \<^verbatim>\<open>skills\<close> field (the property reads \<^verbatim>\<open>undefined\<close>), or
  the field is not an array, or it is the empty array, the answer is 400 with the body
  \<^verbatim>\<open>{"error":"Skills array required"}\<close>, and the outside is untouched: the table and
  the list of effects (calls to the provider, statements sent) are what they were.
\<close>

theorem recommend_validation:
  assumes "getProp reqBody ''skills'' = Inr skills"
      and "\<not> isArray skills \<or> skills = JArr []"
  shows "recommend e reqBody w =
           (\<lparr>status = 400, body = JObj [(''error'', JStr ''Skills array required'')]\<rparr>, w)"
  using assms
  by (cases skills) (auto simp add: recommend_def recommend_try_def skillsRefused_def errorResponse_def)

text \<open>C8 on the bodies \<^verbatim>\<open>{}\<close>, \<^verbatim>\<open>{"skills":"sql"}\<close> and \<^verbatim>\<open>{"skills":[]}\<close>.\<close>

theorem recommend_validation_witness:
  "recommend silentEnv (JObj []) (world0 [backendRow]) =
     (\<lparr>status = 400, body = JObj [(''error'', JStr ''Skills array required'')]\<rparr>, world0 [backendRow]) \<and>
   recommend silentEnv (JObj [(''skills'', JStr ''sql'')]) (world0 [backendRow]) =
     (\<lparr>status = 400, body = JObj [(''error'', JStr ''Skills array required'')]\<rparr>, world0 [backendRow]) \<and>
   recommend silentEnv (JObj [(''skills'', JArr [])]) (world0 [backendRow]) =
     (\<lparr>status = 400, body = JObj [(''error'', JStr ''Skills array required'')]\<rparr>, world0 [backendRow])"
  using recommend_validation [of "JObj []" JUndefined silentEnv "world0 [backendRow]"]
        recommend_validation [of "JObj [(''skills'', JStr ''sql'')]" "JStr ''sql''" silentEnv "world0 [backendRow]"]
        recommend_validation [of "JObj [(''skills'', JArr [])]" "JArr []" silentEnv "world0 [backendRow]"]
  by simp

text \<open>
  C3. For a body whose \<^verbatim>\<open>skills\<close> is a non-empty array, the handler always answers:
  either 200 with an array, or a status from 400 to 599 with a body that has a text
  under \<^verbatim>\<open>error\<close>. When the call to the provider is rejected the answer is 500 with
  such a body, not an array, and the table is unchanged. (The answer is the handler's
  own \<^verbatim>\<open>catch\<close>: the \<^verbatim>\<open>catch\<close> block of \<open>getAIJobRoles\<close> throws on \<^verbatim>\<open>res\<close>.)
\<close>

theorem recommend_answers:
  assumes "getProp reqBody ''skills'' = Inr (JArr skills)" and "skills \<noteq> []"
  shows "\<exists>resp w'. recommend e reqBody w = (resp, w') \<and>
           ((status resp = 200 \<and> isArray (body resp)) \<or>
            (400 \<le> status resp \<and> status resp < 600 \<and> hasErrorField (body resp))) \<and>
           (chatRoles e skills = Rejected \<longrightarrow>
              status resp = 500 \<and> hasErrorField (body resp) \<and> \<not> isArray (body resp) \<and>
              job_roles w' = job_roles w)"
proof (cases "getAIJobRoles e skills")
  case (Inl err)
  with recommend_accepted [OF assms, of e w] show ?thesis
    by (simp add: errorResponse_def hasErrorField_def)
next
  case (Inr aiRoles)
  with recommend_accepted [OF assms, of e w] getAIJobRoles_rejected [of e skills] show ?thesis
    by (cases aiRoles) (auto simp add: errorResponse_def hasErrorField_def)
qed

text \<open>
  C3 on the body \<^verbatim>\<open>{"skills":["sql","node"]}\<close>, with a provider that rejects the call
  and with one whose reply holds no roles.
\<close>

theorem recommend_answers_witness:
  "recommend silentEnv skillsBody (world0 [backendRow]) =
     (\<lparr>status = 500, body = JObj [(''error'', JStr ''Something went wrong'')]\<rparr>,
      \<lparr>job_roles = [backendRow], effects = [AskRoles [JStr ''sql'', JStr ''node'']]\<rparr>) \<and>
   recommend shapelessEnv skillsBody (world0 [backendRow]) =
     (\<lparr>status = 200, body = JArr []\<rparr>,
      \<lparr>job_roles = [backendRow], effects = [AskRoles [JStr ''sql'', JStr ''node'']]\<rparr>)"
proof -
  have nonempty: "[JStr ''sql'', JStr ''node''] \<noteq> []"
    by simp
  have rejected: "chatRoles silentEnv [JStr ''sql'', JStr ''node''] = Rejected"
    by (simp add: silentEnv_def sampleEnv_fields sampleReply_def)
  from recommend_answers [OF skillsBody_skills nonempty, of silentEnv "world0 [backendRow]"] rejected
  obtain resp w' where
    answer: "recommend silentEnv skillsBody (world0 [backendRow]) = (resp, w')"
    and code: "status resp = 500"
    and unchanged: "job_roles w' = job_roles (world0 [backendRow])"
    by auto
  have "recommend silentEnv skillsBody (world0 [backendRow]) =
     (errorResponse 500 ''Something went wrong'',
      \<lparr>job_roles = [backendRow], effects = [AskRoles [JStr ''sql'', JStr ''node'']]\<rparr>)"
    using recommend_accepted [OF skillsBody_skills nonempty, of silentEnv "world0 [backendRow]"]
    by (simp add: getAIJobRoles_rejected [OF rejected] world0_def)
  with answer code unchanged have first:
    "recommend silentEnv skillsBody (world0 [backendRow]) =
     (\<lparr>status = 500, body = JObj [(''error'', JStr ''Something went wrong'')]\<rparr>,
      \<lparr>job_roles = [backendRow], effects = [AskRoles [JStr ''sql'', JStr ''node'']]\<rparr>)"
    by (simp add: errorResponse_def)
  have "getAIJobRoles shapelessEnv [JStr ''sql'', JStr ''node''] = Inr []"
    by (simp add: getAIJobRoles_def getAIJobRoles_try_def shapelessEnv_def sampleEnv_fields
        sampleReply_def sampleParse_texts)
  then have second: "recommend shapelessEnv skillsBody (world0 [backendRow]) =
     (\<lparr>status = 200, body = JArr []\<rparr>,
      \<lparr>job_roles = [backendRow], effects = [AskRoles [JStr ''sql'', JStr ''node'']]\<rparr>)"
    using recommend_accepted [OF skillsBody_skills nonempty, of shapelessEnv "world0 [backendRow]"]
    by (simp add: world0_def)
  from first second show ?thesis by simp
qed

text \<open>
  C1, evaluated. The provider suggests \<^verbatim>\<open>Backend Developer\<close> with score 85; the table
  holds that role with a description of 140 characters, and the statement of line 174
  would select it. The handler answers 500: the parameter list \<^verbatim>\<open>[role_name]\<close> throws,
  no statement is sent (the only effect is the call to the provider) and no entry with
  a preview is returned.
\<close>

theorem recommend_hit_throws:
  "130 \<le> length (description backendRow) \<and>
   selectTrimLower (Some ''Backend Developer'') [backendRow] = [backendRow] \<and>
   recommend hitEnv skillsBody (world0 [backendRow]) =
     (\<lparr>status = 500, body = JObj [(''error'', JStr ''Something went wrong'')]\<rparr>,
      \<lparr>job_roles = [backendRow], effects = [AskRoles [JStr ''sql'', JStr ''node'']]\<rparr>)"
proof -
  have "130 \<le> length (description backendRow)"
    by (simp add: backendRow_def)
  moreover have "getAIJobRoles hitEnv [JStr ''sql'', JStr ''node''] =
      Inr [JObj [(''role'', JStr ''Backend Developer''), (''score'', JNum 85)]]"
    by (simp add: getAIJobRoles_def getAIJobRoles_try_def hitEnv_def sampleEnv_fields
        sampleReply_def sampleParse_replies)
  then have "recommend hitEnv skillsBody (world0 [backendRow]) =
     (\<lparr>status = 500, body = JObj [(''error'', JStr ''Something went wrong'')]\<rparr>,
      \<lparr>job_roles = [backendRow], effects = [AskRoles [JStr ''sql'', JStr ''node'']]\<rparr>)"
    by (simp add: recommend_accepted [OF skillsBody_skills] world0_def errorResponse_def)
  ultimately show ?thesis
    by (simp add: select_samples)
qed

text \<open>
  C2, evaluated. The provider suggests \<^verbatim>\<open>Data Engineer\<close>, which the table does not
  hold and for which \<open>getAIDetailsForJob\<close> returns \<^verbatim>\<open>null\<close>, and then
  \<^verbatim>\<open>Backend Developer\<close>, which the table holds. The handler answers 500 and returns
  no entry for the second role. The miss path on its own throws too: line 192 reads
  \<^verbatim>\<open>jobDetails.jobRole\<close> before the test \<^verbatim>\<open>if (jobDetails)\<close>.
\<close>

theorem recommend_undescribed_throws:
  "getAIDetailsForJob undescribedEnv (JStr ''Data Engineer'') = JNull \<and>
   selectTrimLower (Some ''Data Engineer'') [backendRow] = [] \<and>
   selectTrimLower (Some ''Backend Developer'') [backendRow] = [backendRow] \<and>
   recommend undescribedEnv skillsBody (world0 [backendRow]) =
     (\<lparr>status = 500, body = JObj [(''error'', JStr ''Something went wrong'')]\<rparr>,
      \<lparr>job_roles = [backendRow], effects = [AskRoles [JStr ''sql'', JStr ''node'']]\<rparr>) \<and>
   missPath undescribedEnv (JStr ''Data Engineer'') (JNum 80) [] (world0 [backendRow]) =
     (Inl TypeError,
      \<lparr>job_roles = [backendRow], effects = [AskDetails (JStr ''Data Engineer'')]\<rparr>)"
proof -
  have none: "getAIDetailsForJob undescribedEnv (JStr ''Data Engineer'') = JNull"
    by (simp add: getAIDetailsForJob_def undescribedEnv_def sampleEnv_fields sampleReply_def)
  have "getAIJobRoles undescribedEnv [JStr ''sql'', JStr ''node''] =
      Inr [JObj [(''role'', JStr ''Data Engineer''), (''score'', JNum 80)],
           JObj [(''role'', JStr ''Backend Developer''), (''score'', JNum 85)]]"
    by (simp add: getAIJobRoles_def getAIJobRoles_try_def undescribedEnv_def sampleEnv_fields
        sampleReply_def sampleParse_replies)
  then have answer: "recommend undescribedEnv skillsBody (world0 [backendRow]) =
     (\<lparr>status = 500, body = JObj [(''error'', JStr ''Something went wrong'')]\<rparr>,
      \<lparr>job_roles = [backendRow], effects = [AskRoles [JStr ''sql'', JStr ''node'']]\<rparr>)"
    by (simp add: recommend_accepted [OF skillsBody_skills] world0_def errorResponse_def)
  have miss: "missPath undescribedEnv (JStr ''Data Engineer'') (JNum 80) [] (world0 [backendRow]) =
     (Inl TypeError,
      \<lparr>job_roles = [backendRow], effects = [AskDetails (JStr ''Data Engineer'')]\<rparr>)"
    by (simp add: missPath_def none logJobDetails_def world0_def)
  from none answer miss show ?thesis
    by (simp add: select_samples)
qed

text \<open>
  C4, evaluated. The provider suggests \<^verbatim>\<open>Data Engineer\<close> and describes it; the table
  is empty. The details are fit to be stored (\<open>insertedRow\<close> gives their row), but the
  handler answers 500 before the miss path: nothing is inserted, and GET /job/:role for
  the name answers 404.
\<close>

theorem recommend_miss_not_stored:
  "insertedRow missEnv (getAIDetailsForJob missEnv (JStr ''Data Engineer'')) =
     Inr \<lparr>role_name = ''Data Engineer'', description = ''Builds data pipelines.'',
          tech_stack = Some ''[\"SQL\",\"Node.js\"]'', resume_keywords = Some ''[\"SQL\",\"Node.js\"]'',
          project_ideas = Some ''[]'', roadmap_link = Some ''https://roadmap.sh''\<rparr> \<and>
   recommend missEnv skillsBody (world0 []) =
     (\<lparr>status = 500, body = JObj [(''error'', JStr ''Something went wrong'')]\<rparr>,
      \<lparr>job_roles = [], effects = [AskRoles [JStr ''sql'', JStr ''node'']]\<rparr>) \<and>
   getJob missEnv ''Data Engineer'' (job_roles (snd (recommend missEnv skillsBody (world0 [])))) =
     \<lparr>status = 404, body = JObj [(''error'', JStr ''Job not found'')]\<rparr>"
proof -
  have details: "getAIDetailsForJob missEnv (JStr ''Data Engineer'') =
      JObj [(''jobRole'', JStr ''Data Engineer''),
            (''description'', JStr ''Builds data pipelines.''),
            (''techStack'', JArr [JStr ''SQL'', JStr ''Node.js'']),
            (''resumeKeywords'', JArr [JStr ''SQL'', JStr ''Node.js'']),
            (''projectIdeas'', JArr []),
            (''roadmapLink'', JStr ''https://roadmap.sh'')]"
    by (simp add: getAIDetailsForJob_def missEnv_def sampleEnv_fields sampleReply_def
        sampleParse_replies)
  have stringify: "JSON_stringify missEnv = sampleStringify"
    by (simp add: missEnv_def sampleEnv_fields)
  have stored: "insertedRow missEnv (getAIDetailsForJob missEnv (JStr ''Data Engineer'')) =
     Inr \<lparr>role_name = ''Data Engineer'', description = ''Builds data pipelines.'',
          tech_stack = Some ''[\"SQL\",\"Node.js\"]'', resume_keywords = Some ''[\"SQL\",\"Node.js\"]'',
          project_ideas = Some ''[]'', roadmap_link = Some ''https://roadmap.sh''\<rparr>"
    by (simp add: details insertedRow_def stringify sampleStringify_def jsOr_def)
  have "getAIJobRoles missEnv [JStr ''sql'', JStr ''node''] =
      Inr [JObj [(''role'', JStr ''Data Engineer''), (''score'', JNum 80)]]"
    by (simp add: getAIJobRoles_def getAIJobRoles_try_def missEnv_def sampleEnv_fields
        sampleReply_def sampleParse_replies)
  then have answer: "recommend missEnv skillsBody (world0 []) =
     (\<lparr>status = 500, body = JObj [(''error'', JStr ''Something went wrong'')]\<rparr>,
      \<lparr>job_roles = [], effects = [AskRoles [JStr ''sql'', JStr ''node'']]\<rparr>)"
    by (simp add: recommend_accepted [OF skillsBody_skills] world0_def errorResponse_def)
  have lookup: "getJob missEnv ''Data Engineer'' [] =
     \<lparr>status = 404, body = JObj [(''error'', JStr ''Job not found'')]\<rparr>"
    by (simp add: getJob_def getJob_try_def missEnv_def sampleEnv_fields selectLower_def
        errorResponse_def)
  from stored answer lookup show ?thesis
    by simp
qed

text \<open>
  C7, evaluated. The provider suggests the stored role \<^verbatim>\<open>Backend Developer\<close> with
  score 0. The handler answers 500 and no entry carries the score. Line 171 by itself
  loses the score as well: \<^verbatim>\<open>0 || null\<close> is \<^verbatim>\<open>null\<close>, and the entry of lines 181 to
  188 built with it has \<^verbatim>\<open>null\<close> under \<^verbatim>\<open>score\<close>.
\<close>

theorem recommend_score_zero:
  "recommend zeroScoreEnv skillsBody (world0 [backendRow]) =
     (\<lparr>status = 500, body = JObj [(''error'', JStr ''Something went wrong'')]\<rparr>,
      \<lparr>job_roles = [backendRow], effects = [AskRoles [JStr ''sql'', JStr ''node'']]\<rparr>) \<and>
   jsOr (JNum 0) JNull = JNull \<and>
   hitEntry zeroScoreEnv backendRow (jsOr (JNum 0) JNull) =
     Inr (JObj [(''role'', JStr ''Backend Developer''),
                (''score'', JNull),
                (''preview'', JStr (replicate 130 (CHR ''d'') @ ''...'')),
                (''projectIdeas'', JArr [JStr ''REST API'', JStr ''Job board''])])"
proof -
  have "getAIJobRoles zeroScoreEnv [JStr ''sql'', JStr ''node''] =
      Inr [JObj [(''role'', JStr ''Backend Developer''), (''score'', JNum 0)]]"
    by (simp add: getAIJobRoles_def getAIJobRoles_try_def zeroScoreEnv_def sampleEnv_fields
        sampleReply_def sampleParse_replies)
  then have answer: "recommend zeroScoreEnv skillsBody (world0 [backendRow]) =
     (\<lparr>status = 500, body = JObj [(''error'', JStr ''Something went wrong'')]\<rparr>,
      \<lparr>job_roles = [backendRow], effects = [AskRoles [JStr ''sql'', JStr ''node'']]\<rparr>)"
    by (simp add: recommend_accepted [OF skillsBody_skills] world0_def errorResponse_def)
  have zero: "jsOr (JNum 0) JNull = JNull"
    by (simp add: jsOr_def)
  have entry: "hitEntry zeroScoreEnv backendRow JNull =
     Inr (JObj [(''role'', JStr ''Backend Developer''),
                (''score'', JNull),
                (''preview'', JStr (replicate 130 (CHR ''d'') @ ''...'')),
                (''projectIdeas'', JArr [JStr ''REST API'', JStr ''Job board''])])"
    by (simp add: hitEntry_def zeroScoreEnv_def sampleEnv_fields safeParse_def sampleParse_texts
        backendRow_def ideaTitle_def)
  from answer zero entry show ?thesis
    by simp
qed

section \<open>Properties of GET /job/:role\<close>

text \<open>
  C5, evaluated. The table holds \<^verbatim>\<open>Backend Developer\<close>. The request
  \<^verbatim>\<open>/job/%20backend%20developer\<close> names it up to case and a leading space (the route
  parameter is the name with the space): the trimming statement of POST /recommend
  selects the row, this handler answers 404. Case alone is no obstacle: the parameter
  \<^verbatim>\<open>BACKEND developer\<close> is answered with 200.
\<close>

theorem getJob_untrimmed:
  "getJob silentEnv '' backend developer'' [backendRow] =
     \<lparr>status = 404, body = JObj [(''error'', JStr ''Job not found'')]\<rparr> \<and>
   selectTrimLower (Some '' backend developer'') [backendRow] = [backendRow] \<and>
   status (getJob silentEnv ''BACKEND developer'' [backendRow]) = 200"
proof -
  have "getJob silentEnv '' backend developer'' [backendRow] =
     \<lparr>status = 404, body = JObj [(''error'', JStr ''Job not found'')]\<rparr>"
    by (simp add: getJob_def getJob_try_def silentEnv_def sampleEnv_fields selectLower_def
        toLowerCase_def sqlLOWER_def lowerChar_def backendRow_def errorResponse_def)
  moreover have "status (getJob silentEnv ''BACKEND developer'' [backendRow]) = 200"
    by (simp add: getJob_def getJob_try_def silentEnv_def sampleEnv_fields selectLower_def
        toLowerCase_def sqlLOWER_def lowerChar_def backendRow_def)
  ultimately show ?thesis
    by (simp add: select_samples)
qed

section \<open>Properties of GET /jobs\<close>

lemma mapE_Inr_iff:
  "mapE f xs = Inr ys \<longleftrightarrow> list_all2 (\<lambda>x y. f x = Inr y) xs ys"
proof (induction xs arbitrary: ys)
  case Nil
  show ?case by auto
next
  case (Cons x xs)
  show ?case
  proof (cases "f x")
    case (Inl err)
    then show ?thesis by (auto simp add: list_all2_Cons1)
  next
    case (Inr y)
    show ?thesis
    proof (cases "mapE f xs")
      case (Inl err)
      with Inr Cons.IH show ?thesis by (auto simp add: list_all2_Cons1)
    next
      case tl: (Inr zs)
      with Inr Cons.IH show ?thesis by (auto simp add: list_all2_Cons1)
    qed
  qed
qed

lemma mapE_total:
  assumes "list_all (\<lambda>x. \<exists>y. f x = Inr y) xs"
  shows "\<exists>ys. mapE f xs = Inr ys"
  using assms
proof (induction xs)
  case Nil
  show ?case by simp
next
  case (Cons x xs)
  then obtain y ys where "f x = Inr y" and "mapE f xs = Inr ys" by auto
  then show ?case by simp
qed

lemma ideaTitle_ok: "ideaOk p \<Longrightarrow> \<exists>t. ideaTitle p = Inr t"
  by (cases p) (simp_all add: ideaTitle_def)

lemma jobsEntry_ok:
  assumes "ideasOk e r"
  shows "\<exists>ideas. jobsEntry e r =
           Inr (JObj [(''role'', JStr (role_name r)),
                      (''preview'', JStr (take 120 (description r) @ ''...'')),
                      (''projectIdeas'', ideas),
                      (''roadmapLink'', jsOr (colVal (roadmap_link r)) JNull)])"
proof -
  from assms obtain ps where
    parsed: "safeParse (JSON_parse e) (colVal (project_ideas r)) = JArr ps"
    and ok: "list_all ideaOk ps"
    by (auto simp add: ideasOk_def split: jsval.splits)
  from ok have "list_all (\<lambda>p. \<exists>t. ideaTitle p = Inr t) ps"
    by (simp add: list_all_iff ideaTitle_ok)
  then obtain ts where "mapE ideaTitle ps = Inr ts"
    using mapE_total by blast
  with parsed show ?thesis
    by (simp add: jobsEntry_def)
qed

lemma jobsEntry_fields:
  assumes "jobsEntry e r = Inr en"
  shows "fieldOf ''role'' en = JStr (role_name r) \<and>
         fieldOf ''preview'' en = JStr (take 120 (description r) @ ''...'')"
  using assms
  by (auto simp add: jobsEntry_def fieldOf_def split: sum.splits)

lemma entries_fields:
  assumes "list_all2 (\<lambda>r en. jobsEntry e r = Inr en) rs ens"
  shows "map (fieldOf ''role'') ens = map (\<lambda>r. JStr (role_name r)) rs \<and>
         map (fieldOf ''preview'') ens = map (\<lambda>r. JStr (take 120 (description r) @ ''...'')) rs"
  using assms
  by (induction rs ens rule: list_all2_induct) (simp_all add: jobsEntry_fields)

text \<open>
  C9 as the claim words it fails: the table holds two roles, the project ideas of one
  stored as the text \<^verbatim>\<open>{}\<close>. \<open>safeParse\<close> hands the object on, the \<^verbatim>\<open>map\<close> of line
  259 throws, and GET /jobs answers 500 instead of the two entries.
\<close>

theorem getJobs_object_ideas_counterexample:
  "getJobs silentEnv [analystRow, objectIdeasRow] =
     \<lparr>status = 500, body = JObj [(''error'', JStr ''Something went wrong'')]\<rparr> \<and>
   getJobs silentEnv [analystRow, objectIdeasRow] \<noteq>
     \<lparr>status = 200,
      body = JArr
        [JObj [(''role'', JStr ''analyst''),
               (''preview'', JStr ''Reads data....''),
               (''projectIdeas'', JArr []),
               (''roadmapLink'', JNull)],
         JObj [(''role'', JStr ''Tester''),
               (''preview'', JStr ''Tests....''),
               (''projectIdeas'', JArr []),
               (''roadmapLink'', JNull)]]\<rparr>"
proof -
  have order: "selectOrdered sqlLOWER [analystRow, objectIdeasRow] = [analystRow, objectIdeasRow]"
    by (simp add: selectOrdered_def analystRow_def objectIdeasRow_def sqlLOWER_def lowerChar_def)
  have first: "jobsEntry silentEnv analystRow =
      Inr (JObj [(''role'', JStr ''analyst''), (''preview'', JStr ''Reads data....''),
                 (''projectIdeas'', JArr []), (''roadmapLink'', JNull)])"
    by (simp add: jobsEntry_def silentEnv_def sampleEnv_fields safeParse_def analystRow_def jsOr_def)
  have "sampleParse ''{}'' = Some (JObj [])"
    by (simp add: sampleParse_def)
  then have second: "jobsEntry silentEnv objectIdeasRow = Inl TypeError"
    by (simp add: jobsEntry_def silentEnv_def sampleEnv_fields safeParse_def objectIdeasRow_def)
  have coll: "collation silentEnv = sqlLOWER"
    by (simp add: silentEnv_def sampleEnv_fields)
  have "getJobs silentEnv [analystRow, objectIdeasRow] =
     \<lparr>status = 500, body = JObj [(''error'', JStr ''Something went wrong'')]\<rparr>"
    by (simp add: getJobs_def getJobs_try_def coll order first second errorResponse_def)
  then show ?thesis by simp
qed

text \<open>
  C9 (as the code has it). When the project ideas of every stored row read, through
  \<open>safeParse\<close>, as a sequence of values other than \<^verbatim>\<open>null\<close> and \<^verbatim>\<open>undefined\<close>,
  GET /jobs answers 200 with one entry per stored row, in the order of the
  statement: the rows are those of the table (as a multiset), ascending by role name in
  the column's collation; the entry of a row carries its role name, and under
  \<^verbatim>\<open>preview\<close> the first 120 characters of its description followed by \<^verbatim>\<open>...\<close>, a
  text of at most 123 characters, the marker being appended whatever the length of the
  description.
\<close>

theorem getJobs_sorted_previews:
  assumes "list_all (ideasOk e) rows"
  shows "\<exists>entries. getJobs e rows = \<lparr>status = 200, body = JArr entries\<rparr> \<and>
           map (fieldOf ''role'') entries =
             map (\<lambda>r. JStr (role_name r)) (selectOrdered (collation e) rows) \<and>
           mset (selectOrdered (collation e) rows) = mset rows \<and>
           sorted (map (\<lambda>r. collation e (role_name r)) (selectOrdered (collation e) rows)) \<and>
           map (fieldOf ''preview'') entries =
             map (\<lambda>r. JStr (take 120 (description r) @ ''...'')) (selectOrdered (collation e) rows) \<and>
           list_all (\<lambda>en. \<exists>p. fieldOf ''preview'' en = JStr p \<and> length p \<le> 123) entries"
proof -
  let ?sorted = "selectOrdered (collation e) rows"
  have same: "set ?sorted = set rows"
    by (simp add: selectOrdered_def)
  have "list_all (\<lambda>r. \<exists>en. jobsEntry e r = Inr en) ?sorted"
    unfolding list_all_iff
  proof
    fix r
    assume "r \<in> set ?sorted"
    with same assms have "ideasOk e r"
      by (simp add: list_all_iff)
    then show "\<exists>en. jobsEntry e r = Inr en"
      using jobsEntry_ok by blast
  qed
  then obtain entries where run: "mapE (jobsEntry e) ?sorted = Inr entries"
    using mapE_total by blast
  then have rel: "list_all2 (\<lambda>r en. jobsEntry e r = Inr en) ?sorted entries"
    by (simp add: mapE_Inr_iff)
  note fields = entries_fields [OF rel]
  have "list_all (\<lambda>en. \<exists>p. fieldOf ''preview'' en = JStr p \<and> length p \<le> 123) entries"
  proof -
    have "\<exists>p. fieldOf ''preview'' en = JStr p \<and> length p \<le> 123" if "en \<in> set entries" for en
    proof -
      from that rel obtain r where "jobsEntry e r = Inr en"
        by (auto simp add: list_all2_conv_all_nth in_set_conv_nth)
      then show ?thesis
        using jobsEntry_fields by fastforce
    qed
    then show ?thesis by (simp add: list_all_iff)
  qed
  moreover from run have "getJobs e rows = \<lparr>status = 200, body = JArr entries\<rparr>"
    by (simp add: getJobs_def getJobs_try_def)
  moreover have "mset ?sorted = mset rows"
    by (simp add: selectOrdered_def)
  moreover have "sorted (map (\<lambda>r. collation e (role_name r)) ?sorted)"
    by (simp add: selectOrdered_def)
  ultimately show ?thesis
    using fields by blast
qed

text \<open>
  C9 on a table of two rows stored out of order, one with a description of 140
  characters and one with a description of 11.
\<close>

theorem getJobs_sorted_previews_witness:
  "list_all (ideasOk silentEnv) [backendRow, analystRow] \<and>
   getJobs silentEnv [backendRow, analystRow] =
     \<lparr>status = 200,
      body = JArr
        [JObj [(''role'', JStr ''analyst''),
               (''preview'', JStr ''Reads data....''),
               (''projectIdeas'', JArr []),
               (''roadmapLink'', JNull)],
         JObj [(''role'', JStr ''Backend Developer''),
               (''preview'', JStr (replicate 120 (CHR ''d'') @ ''...'')),
               (''projectIdeas'', JArr [JStr ''REST API'', JStr ''Job board'']),
               (''roadmapLink'', JStr ''https://roadmap.sh'')]]\<rparr>"
proof -
  have ok: "list_all (ideasOk silentEnv) [backendRow, analystRow]"
    by (simp add: ideasOk_def silentEnv_def sampleEnv_fields safeParse_def sampleParse_texts
        backendRow_def analystRow_def)
  have order: "selectOrdered sqlLOWER [backendRow, analystRow] = [analystRow, backendRow]"
    by (simp add: selectOrdered_def backendRow_def analystRow_def sqlLOWER_def lowerChar_def)
  have first: "jobsEntry silentEnv analystRow =
      Inr (JObj [(''role'', JStr ''analyst''), (''preview'', JStr ''Reads data....''),
                 (''projectIdeas'', JArr []), (''roadmapLink'', JNull)])"
    by (simp add: jobsEntry_def silentEnv_def sampleEnv_fields safeParse_def analystRow_def jsOr_def)
  have second: "jobsEntry silentEnv backendRow =
      Inr (JObj [(''role'', JStr ''Backend Developer''),
                 (''preview'', JStr (replicate 120 (CHR ''d'') @ ''...'')),
                 (''projectIdeas'', JArr [JStr ''REST API'', JStr ''Job board'']),
                 (''roadmapLink'', JStr ''https://roadmap.sh'')])"
    by (simp add: jobsEntry_def silentEnv_def sampleEnv_fields safeParse_def sampleParse_texts
        backendRow_def jsOr_def ideaTitle_def)
  have coll: "collation silentEnv = sqlLOWER"
    by (simp add: silentEnv_def sampleEnv_fields)
  from getJobs_sorted_previews [OF ok] obtain entries where
    answer: "getJobs silentEnv [backendRow, analystRow] = \<lparr>status = 200, body = JArr entries\<rparr>"
    and roles: "map (fieldOf ''role'') entries =
      map (\<lambda>r. JStr (role_name r)) (selectOrdered (collation silentEnv) [backendRow, analystRow])"
    by blast
  have "mapE (jobsEntry silentEnv) (selectOrdered (collation silentEnv) [backendRow, analystRow]) =
      Inr [JObj [(''role'', JStr ''analyst''), (''preview'', JStr ''Reads data....''),
                 (''projectIdeas'', JArr []), (''roadmapLink'', JNull)],
           JObj [(''role'', JStr ''Backend Developer''),
                 (''preview'', JStr (replicate 120 (CHR ''d'') @ ''...'')),
                 (''projectIdeas'', JArr [JStr ''REST API'', JStr ''Job board'']),
                 (''roadmapLink'', JStr ''https://roadmap.sh'')]]"
    by (simp add: coll order first second)
  with answer have "entries =
      [JObj [(''role'', JStr ''analyst''), (''preview'', JStr ''Reads data....''),
             (''projectIdeas'', JArr []), (''roadmapLink'', JNull)],
       JObj [(''role'', JStr ''Backend Developer''),
             (''preview'', JStr (replicate 120 (CHR ''d'') @ ''...'')),
             (''projectIdeas'', JArr [JStr ''REST API'', JStr ''Job board'']),
             (''roadmapLink'', JStr ''https://roadmap.sh'')]]"
    by (simp add: getJobs_def getJobs_try_def)
  with answer ok show ?thesis by simp
qed

section \<open>Further properties of the routes\<close>

text \<open>
  X1. Whenever the provider's reply yields at least one suggestion, POST /recommend
  answers 500 with \<^verbatim>\<open>{"error":"Something went wrong"}\<close>: the first turn of the loop
  throws. The table is unchanged and the only effect is the call to the provider.
\<close>

theorem recommend_suggestions_throw:
  assumes "getProp reqBody ''skills'' = Inr (JArr skills)" and "skills \<noteq> []"
      and "getAIJobRoles_try e skills = Inr (r # rs)"
  shows "recommend e reqBody w =
           (\<lparr>status = 500, body = JObj [(''error'', JStr ''Something went wrong'')]\<rparr>,
            w\<lparr>effects := effects w @ [AskRoles skills]\<rparr>)"
  using recommend_accepted [OF assms(1,2), of e w] assms(3)
  by (simp add: getAIJobRoles_def errorResponse_def)

text \<open>X1 on a reply with two suggestions and an empty table.\<close>

theorem recommend_suggestions_throw_witness:
  "recommend undescribedEnv skillsBody (world0 []) =
     (\<lparr>status = 500, body = JObj [(''error'', JStr ''Something went wrong'')]\<rparr>,
      \<lparr>job_roles = [], effects = [AskRoles [JStr ''sql'', JStr ''node'']]\<rparr>)"
proof -
  have "getAIJobRoles_try undescribedEnv [JStr ''sql'', JStr ''node''] =
      Inr (JObj [(''role'', JStr ''Data Engineer''), (''score'', JNum 80)] #
           [JObj [(''role'', JStr ''Backend Developer''), (''score'', JNum 85)]])"
    by (simp add: getAIJobRoles_try_def undescribedEnv_def sampleEnv_fields sampleReply_def
        sampleParse_replies)
  from recommend_suggestions_throw [OF skillsBody_skills _ this, of "world0 []"]
  show ?thesis
    by (simp add: world0_def)
qed

text \<open>
  X2. The entry built for a stored row (lines 181 to 188) carries the row's stored
  name, the score it is given, and as preview the first 130 characters of the stored
  description followed by \<^verbatim>\<open>...\<close>.
\<close>

theorem hitEntry_fields:
  assumes "hitEntry e row score = Inr entry"
  shows "fieldOf ''role'' entry = JStr (role_name row) \<and>
         fieldOf ''score'' entry = score \<and>
         fieldOf ''preview'' entry = JStr (take 130 (description row) @ ''...'')"
proof (cases "ideaTitles (safeParse (JSON_parse e) (colVal (project_ideas row)))")
  case (Inl err)
  with assms show ?thesis by (simp add: hitEntry_def)
next
  case (Inr ideas)
  with assms have "entry = JObj [(''role'', JStr (role_name row)), (''score'', score),
      (''preview'', JStr (take 130 (description row) @ ''...'')), (''projectIdeas'', ideas)]"
    by (auto simp add: hitEntry_def)
  then show ?thesis by (simp add: fieldOf_def)
qed

text \<open>X2 on the stored role with a description of 140 characters and the score 85.\<close>

theorem hitEntry_fields_witness:
  "hitEntry silentEnv backendRow (JNum 85) =
     Inr (JObj [(''role'', JStr ''Backend Developer''),
                (''score'', JNum 85),
                (''preview'', JStr (replicate 130 (CHR ''d'') @ ''...'')),
                (''projectIdeas'', JArr [JStr ''REST API'', JStr ''Job board''])]) \<and>
   fieldOf ''preview''
     (JObj [(''role'', JStr ''Backend Developer''),
            (''score'', JNum 85),
            (''preview'', JStr (replicate 130 (CHR ''d'') @ ''...'')),
            (''projectIdeas'', JArr [JStr ''REST API'', JStr ''Job board''])]) =
     JStr (take 130 (description backendRow) @ ''...'')"
proof -
  have entry: "hitEntry silentEnv backendRow (JNum 85) =
     Inr (JObj [(''role'', JStr ''Backend Developer''),
                (''score'', JNum 85),
                (''preview'', JStr (replicate 130 (CHR ''d'') @ ''...'')),
                (''projectIdeas'', JArr [JStr ''REST API'', JStr ''Job board''])])"
    by (simp add: hitEntry_def silentEnv_def sampleEnv_fields safeParse_def sampleParse_texts
        backendRow_def ideaTitle_def)
  from hitEntry_fields [OF entry] entry show ?thesis
    by simp
qed

lemma lowerChar_idem: "lowerChar (lowerChar c) = lowerChar c"
  by (auto simp add: lowerChar_def split: option.splits if_splits)

lemma toLowerCase_idem: "toLowerCase (toLowerCase s) = toLowerCase s"
  by (simp add: toLowerCase_def lowerChar_idem)

text \<open>
  X3. GET /job/:role, for a parameter that decodes to \<open>name\<close>: the rows considered are
  those whose role name equals \<open>name\<close> up to the case of letters, and in nothing else.
  When there is none the answer is 404 with \<^verbatim>\<open>{"error":"Job not found"}\<close>; otherwise it
  is 200 with the fields of the first of them, the three serialized columns read by
  \<open>safeParse\<close>.
\<close>

theorem getJob_lookup:
  assumes "decodeURIComponent e param = Some name"
  shows "(filter (\<lambda>r. toLowerCase (role_name r) = toLowerCase name) rows = [] \<longrightarrow>
            getJob e param rows =
              \<lparr>status = 404, body = JObj [(''error'', JStr ''Job not found'')]\<rparr>) \<and>
         (filter (\<lambda>r. toLowerCase (role_name r) = toLowerCase name) rows = job # others \<longrightarrow>
            getJob e param rows =
              \<lparr>status = 200,
               body = JObj
                 [(''role'', JStr (role_name job)),
                  (''description'', JStr (description job)),
                  (''techStack'', safeParse (JSON_parse e) (colVal (tech_stack job))),
                  (''resumeKeywords'', safeParse (JSON_parse e) (colVal (resume_keywords job))),
                  (''projectIdeas'', safeParse (JSON_parse e) (colVal (project_ideas job))),
                  (''roadmapLink'', colVal (roadmap_link job))]\<rparr>)"
proof -
  have "selectLower (toLowerCase (toLowerCase name)) rows =
      filter (\<lambda>r. toLowerCase (role_name r) = toLowerCase name) rows"
    unfolding toLowerCase_idem by (simp add: selectLower_def sqlLOWER_def toLowerCase_def)
  with assms show ?thesis
    by (simp add: getJob_def getJob_try_def errorResponse_def)
qed

text \<open>X3 on an unknown name and on a case and percent-encoding variant of a stored one.\<close>

theorem getJob_lookup_witness:
  "getJob silentEnv ''data%20engineer'' [backendRow] =
     \<lparr>status = 404, body = JObj [(''error'', JStr ''Job not found'')]\<rparr> \<and>
   getJob silentEnv ''BACKEND%20developer'' [analystRow, backendRow] =
     \<lparr>status = 200,
      body = JObj
        [(''role'', JStr ''Backend Developer''),
         (''description'', JStr (replicate 140 (CHR ''d''))),
         (''techStack'', JArr [JStr ''SQL'', JStr ''Node.js'']),
         (''resumeKeywords'', JArr []),
         (''projectIdeas'', JArr [JStr ''REST API'', JObj [(''title'', JStr ''Job board'')]]),
         (''roadmapLink'', JStr ''https://roadmap.sh'')]\<rparr>"
proof -
  have "asciiDecode ''data%20engineer'' = Some ''data engineer''"
    by code_simp
  then have d1: "decodeURIComponent silentEnv ''data%20engineer'' = Some ''data engineer''"
    by (simp add: silentEnv_def sampleEnv_fields)
  have "asciiDecode ''BACKEND%20developer'' = Some ''BACKEND developer''"
    by code_simp
  then have d2: "decodeURIComponent silentEnv ''BACKEND%20developer'' = Some ''BACKEND developer''"
    by (simp add: silentEnv_def sampleEnv_fields)
  have f1: "filter (\<lambda>r. toLowerCase (role_name r) = toLowerCase ''data engineer'') [backendRow] = []"
    by (simp add: toLowerCase_def lowerChar_def backendRow_def)
  have f2: "filter (\<lambda>r. toLowerCase (role_name r) = toLowerCase ''BACKEND developer'')
      [analystRow, backendRow] = backendRow # []"
    by (simp add: toLowerCase_def lowerChar_def backendRow_def analystRow_def)
  have parse: "JSON_parse silentEnv = sampleParse"
    by (simp add: silentEnv_def sampleEnv_fields)
  have texts: "sampleParse ''[\"SQL\",\"Node.js\"]'' = Some (JArr [JStr ''SQL'', JStr ''Node.js''])"
    by (simp add: sampleParse_def)
  from getJob_lookup [OF d1, of "[backendRow]" backendRow "[]"] f1
  have first: "getJob silentEnv ''data%20engineer'' [backendRow] =
     \<lparr>status = 404, body = JObj [(''error'', JStr ''Job not found'')]\<rparr>"
    by simp
  from getJob_lookup [OF d2, of "[analystRow, backendRow]" backendRow "[]"] f2
  have "getJob silentEnv ''BACKEND%20developer'' [analystRow, backendRow] =
     \<lparr>status = 200,
      body = JObj
        [(''role'', JStr (role_name backendRow)),
         (''description'', JStr (description backendRow)),
         (''techStack'', safeParse sampleParse (colVal (tech_stack backendRow))),
         (''resumeKeywords'', safeParse sampleParse (colVal (resume_keywords backendRow))),
         (''projectIdeas'', safeParse sampleParse (colVal (project_ideas backendRow))),
         (''roadmapLink'', colVal (roadmap_link backendRow))]\<rparr>"
    by (simp add: parse)
  then have second: "getJob silentEnv ''BACKEND%20developer'' [analystRow, backendRow] =
     \<lparr>status = 200,
      body = JObj
        [(''role'', JStr ''Backend Developer''),
         (''description'', JStr (replicate 140 (CHR ''d''))),
         (''techStack'', JArr [JStr ''SQL'', JStr ''Node.js'']),
         (''resumeKeywords'', JArr []),
         (''projectIdeas'', JArr [JStr ''REST API'', JObj [(''title'', JStr ''Job board'')]]),
         (''roadmapLink'', JStr ''https://roadmap.sh'')]\<rparr>"
    by (simp add: backendRow_def safeParse_def sampleParse_texts texts)
  from first second show ?thesis by simp
qed

lemma mapE_fails:
  assumes "x \<in> set xs" and "f x = Inl err"
  shows "\<exists>err'. mapE f xs = Inl err'"
  using assms
proof (induction xs)
  case Nil
  then show ?case by simp
next
  case (Cons y ys)
  then show ?case
    by (cases "f y"; cases "mapE f ys") auto
qed

lemma ideaTitle_bad: "\<not> ideaOk p \<Longrightarrow> ideaTitle p = Inl TypeError"
  by (cases p) (simp_all add: ideaTitle_def)

lemma jobsEntry_unreadable:
  assumes "\<not> ideasOk e r"
  shows "\<exists>err. jobsEntry e r = Inl err"
proof (cases "safeParse (JSON_parse e) (colVal (project_ideas r))")
  case (JArr ps)
  with assms obtain p where "p \<in> set ps" and "\<not> ideaOk p"
    by (auto simp add: ideasOk_def list_all_iff)
  then obtain err where "mapE ideaTitle ps = Inl err"
    using mapE_fails [of p ps ideaTitle TypeError] ideaTitle_bad [of p] by blast
  with JArr show ?thesis
    by (simp add: jobsEntry_def)
qed (simp_all add: jobsEntry_def)

text \<open>
  X4. When the project ideas of some stored row do not read as a sequence of values
  other than \<^verbatim>\<open>null\<close> and \<^verbatim>\<open>undefined\<close>, GET /jobs lists nothing: the \<^verbatim>\<open>map\<close> of line
  259 throws and the answer is 500 with \<^verbatim>\<open>{"error":"Something went wrong"}\<close>.
\<close>

theorem getJobs_unreadable:
  assumes "r \<in> set rows" and "\<not> ideasOk e r"
  shows "getJobs e rows = \<lparr>status = 500, body = JObj [(''error'', JStr ''Something went wrong'')]\<rparr>"
proof -
  from assms(1) have "r \<in> set (selectOrdered (collation e) rows)"
    by (simp add: selectOrdered_def)
  moreover obtain err where "jobsEntry e r = Inl err"
    using jobsEntry_unreadable [OF assms(2)] by blast
  ultimately obtain err' where "mapE (jobsEntry e) (selectOrdered (collation e) rows) = Inl err'"
    using mapE_fails [of r "selectOrdered (collation e) rows" "jobsEntry e" err] by blast
  then show ?thesis
    by (simp add: getJobs_def getJobs_try_def errorResponse_def)
qed

text \<open>X4 on a table with a row whose project ideas were stored as \<^verbatim>\<open>{}\<close>.\<close>

theorem getJobs_unreadable_witness:
  "\<not> ideasOk silentEnv objectIdeasRow \<and>
   getJobs silentEnv [backendRow, objectIdeasRow] =
     \<lparr>status = 500, body = JObj [(''error'', JStr ''Something went wrong'')]\<rparr>"
proof -
  have "sampleParse ''{}'' = Some (JObj [])"
    by (simp add: sampleParse_def)
  then have bad: "\<not> ideasOk silentEnv objectIdeasRow"
    by (simp add: ideasOk_def silentEnv_def sampleEnv_fields safeParse_def objectIdeasRow_def)
  have "objectIdeasRow \<in> set [backendRow, objectIdeasRow]"
    by simp
  from getJobs_unreadable [OF this bad] bad show ?thesis
    by simp
qed

end
